theory Spec2Isabelle
  imports Main "HOL-Library.AList"
begin

section \<open>Values, documents and the credential store\<close>

text \<open>
  The service keeps its users in the MongoDB collection \<open>User\<close> and handles every user as a
  Python \<open>dict\<close>. A dict is modelled as an association list in insertion order, read with
  \<open>map_of\<close>; \<open>d[k]\<close> raises \<open>KeyError\<close> on a missing key and \<open>d.get(k)\<close> gives \<open>None\<close>.

  An \<open>ObjectId\<close> is represented by the lower-case hexadecimal digits that \<open>str\<close> prints for
  its bytes (24 digits for the 12 bytes of a generated id), a \<open>datetime\<close> by its ISO text: the
  code only stores and returns timestamps.
\<close>

datatype objectid = ObjectId string

type_synonym datetime = string

datatype pyval =
    PNone
  | PStr string
  | PBool bool
  | PObjectId objectid
  | PDatetime datetime

type_synonym pydict = "(string \<times> pyval) list"

text \<open>
  What a handler can raise: FastAPI's \<open>HTTPException(status_code, detail, headers)\<close>, a
  \<open>KeyError\<close> from \<open>d[k]\<close>, and the validation error of a request body that does not fit its
  pydantic model.
\<close>

datatype failure =
    HTTPException nat string "(string \<times> string) list"
  | KeyError string
  | RequestValidationError

text \<open>What the constructor \<open>ObjectId(oid)\<close> of \<open>bson\<close> can raise.\<close>

datatype bson_error = InvalidId | TypeError

definition getitem :: "pydict \<Rightarrow> string \<Rightarrow> failure + pyval" where
  "getitem d k = (case map_of d k of None \<Rightarrow> Inl (KeyError k) | Some v \<Rightarrow> Inr v)"

definition dict_get :: "pydict \<Rightarrow> string \<Rightarrow> pyval" where
  "dict_get d k = (case map_of d k of None \<Rightarrow> PNone | Some v \<Rightarrow> v)"

text \<open>Truth value of an \<open>Optional[dict]\<close>: \<open>None\<close> and the empty dict are false.\<close>

definition truthy :: "pydict option \<Rightarrow> bool" where
  "truthy u = (case u of None \<Rightarrow> False | Some d \<Rightarrow> d \<noteq> [])"

text \<open>Python's \<open>str(v)\<close>.\<close>

fun py_str :: "pyval \<Rightarrow> string" where
  "py_str PNone = ''None''"
| "py_str (PStr s) = s"
| "py_str (PBool b) = (if b then ''True'' else ''False'')"
| "py_str (PObjectId (ObjectId h)) = h"
| "py_str (PDatetime t) = t"

definition is_hex :: "char \<Rightarrow> bool" where
  "is_hex c = (c \<in> set ''0123456789abcdefABCDEF'')"

definition hex_lower :: "char \<Rightarrow> char" where
  "hex_lower c = (case map_of (zip ''ABCDEF'' ''abcdef'') c of None \<Rightarrow> c | Some l \<Rightarrow> l)"

text \<open>The white space of ASCII: space, tab, line feed, vertical tab, form feed, return.\<close>

definition is_space :: "char \<Rightarrow> bool" where
  "is_space c = (c \<in> set [CHR '' '', CHR 0x09, CHR 0x0A, CHR 0x0B, CHR 0x0C, CHR 0x0D])"

text \<open>
  \<open>bytes.fromhex(s)\<close>, the bytes given by the hexadecimal digits that print them: white space
  in front of a byte is skipped, a byte is two hexadecimal digits next to each other, and
  anything else raises \<open>ValueError\<close> (here \<open>None\<close>).
\<close>

fun fromhex :: "string \<Rightarrow> string option" where
  "fromhex [] = Some []"
| "fromhex [c] = (if is_space c then Some [] else None)"
| "fromhex (c # c' # cs) =
     (if is_space c then fromhex (c' # cs)
      else if is_hex c \<and> is_hex c'
      then map_option (\<lambda>h. hex_lower c # hex_lower c' # h) (fromhex cs)
      else None)"


text \<open>
  \<open>ObjectId(oid)\<close>: with \<open>None\<close> it generates a new id (here \<open>generated\<close>, supplied by the
  caller of the model), an \<open>ObjectId\<close> is copied, a \<open>str\<close> must have 24 characters and is
  parsed by \<open>bytes.fromhex\<close> (\<open>InvalidId\<close> when it has another length or does not parse),
  anything else is a \<open>TypeError\<close>. A string of 24 characters with white space between its
  bytes is accepted and gives an id of fewer than 12 bytes.
\<close>

definition ObjectId_init :: "objectid \<Rightarrow> pyval \<Rightarrow> bson_error + objectid" where
  "ObjectId_init generated v =
     (case v of
        PNone \<Rightarrow> Inr generated
      | PObjectId oid \<Rightarrow> Inr oid
      | PStr s \<Rightarrow>
          (if length s = 24
           then (case fromhex s of None \<Rightarrow> Inl InvalidId | Some h \<Rightarrow> Inr (ObjectId h))
           else Inl InvalidId)
      | _ \<Rightarrow> Inl TypeError)"

text \<open>
  The store: the documents of the collection \<open>User\<close> in insertion order, and a log of the
  accesses (number of \<open>find_one\<close> and of \<open>insert_one\<close> calls made so far).
\<close>

record db =
  User :: "pydict list"
  reads :: nat
  writes :: nat

text \<open>\<open>collection.find_one({k: v})\<close>: the first document whose field \<open>k\<close> equals \<open>v\<close>.\<close>

definition find_one :: "pydict list \<Rightarrow> string \<Rightarrow> pyval \<Rightarrow> pydict option" where
  "find_one coll k v = List.find (\<lambda>d. map_of d k = Some v) coll"

text \<open>
  \<open>collection.insert_one(doc)\<close>: the driver gives the document the generated \<open>_id\<close> (the
  document has none), the collection gains it, and the result carries the id.
\<close>

definition insert_one :: "objectid \<Rightarrow> db \<Rightarrow> pydict \<Rightarrow> db \<times> objectid" where
  "insert_one generated d doc =
     (d\<lparr>User := User d @ [AList.update ''_id'' (PObjectId generated) doc],
        writes := writes d + 1\<rparr>, generated)"

subsection \<open>app/utils/database.py\<close>

definition get_user_by_email :: "db \<Rightarrow> string \<Rightarrow> db \<times> pydict option" where
  "get_user_by_email d email =
     (d\<lparr>reads := reads d + 1\<rparr>, find_one (User d) ''email'' (PStr email))"

text \<open>\<open>utcnow1\<close> and \<open>utcnow2\<close> are the two readings of \<open>datetime.utcnow()\<close>.\<close>

definition create_user ::
  "objectid \<Rightarrow> datetime \<Rightarrow> datetime \<Rightarrow> db \<Rightarrow> string \<Rightarrow> string \<Rightarrow> string option \<Rightarrow> db \<times> pydict" where
  "create_user generated utcnow1 utcnow2 d email hashed_password name =
     (let user_data =
            [(''email'', PStr email),
             (''password'', PStr hashed_password),
             (''name'', (case name of None \<Rightarrow> PNone | Some n \<Rightarrow> PStr n)),
             (''provider'', PStr ''email''),
             (''createdAt'', PDatetime utcnow1),
             (''updatedAt'', PDatetime utcnow2)];
          (d', inserted_id) = insert_one generated d user_data
      in (d', AList.update ''_id'' (PObjectId inserted_id) user_data))"

text \<open>
  The body of the \<open>try\<close> may raise while the id is built, before the store is read; the bare
  \<open>except\<close> turns every exception into \<open>None\<close>.
\<close>

definition get_user_by_id :: "objectid \<Rightarrow> db \<Rightarrow> pyval \<Rightarrow> db \<times> pydict option" where
  "get_user_by_id generated d user_id =
     (case ObjectId_init generated user_id of
        Inl e \<Rightarrow> (d, None)
      | Inr oid \<Rightarrow> (d\<lparr>reads := reads d + 1\<rparr>, find_one (User d) ''_id'' (PObjectId oid)))"

section \<open>app/utils/auth.py\<close>

text \<open>
  The password hasher and the token signature are library primitives, and the signing secret
  and the expiry window are configuration; the model takes them as given.
  \<open>pwd_hash salt plaintext\<close> is the salted digest, \<open>pwd_verify plaintext digest\<close> the check,
  \<open>jwt_sign key payload expiry issued_at\<close> the signature.
\<close>

record auth_env =
  pwd_hash :: "string \<Rightarrow> string \<Rightarrow> string"
  pwd_verify :: "string \<Rightarrow> string \<Rightarrow> bool"
  jwt_sign :: "string \<Rightarrow> pydict \<Rightarrow> int \<Rightarrow> int \<Rightarrow> string"
  SECRET_KEY :: string
  ACCESS_TOKEN_EXPIRE_MINUTES :: int

text \<open>A bearer token: the claims it embeds, expiry and issue time in seconds, signature.\<close>

record jwt =
  payload :: pydict
  expiry :: int
  issued_at :: int
  signature :: string

text \<open>\<open>timedelta(minutes=m)\<close>, in seconds.\<close>

definition timedelta_minutes :: "int \<Rightarrow> int" where
  "timedelta_minutes m = 60 * m"

text \<open>
  Modelled from the spec: \<open>get_password_hash\<close> of app/utils/auth.py is not among the sources.
  Section 4.1: \<open>hash(plaintext) -> digest\<close> produces a salted, irreversible digest, the salt
  chosen anew at each call.
\<close>

definition get_password_hash :: "auth_env \<Rightarrow> string \<Rightarrow> string \<Rightarrow> string" where
  "get_password_hash env salt password = pwd_hash env salt password"

text \<open>
  Modelled from the spec: \<open>verify_password\<close> of app/utils/auth.py is not among the sources.
  Section 4.1: \<open>verify(plaintext, digest) -> bool\<close> recomputes with the embedded salt and
  compares; on a malformed digest it returns false and never throws.
\<close>

definition verify_password :: "auth_env \<Rightarrow> string \<Rightarrow> pyval \<Rightarrow> bool" where
  "verify_password env plain_password hashed_password =
     (case hashed_password of PStr digest \<Rightarrow> pwd_verify env plain_password digest | _ \<Rightarrow> False)"

text \<open>
  Modelled from the spec: \<open>create_access_token\<close> of app/utils/auth.py is not among the sources.
  Section 4.2: \<open>issue\<close> produces a signed, self-contained token embedding the claims given, an
  expiry timestamp and an issued-at timestamp, signed with the server-held secret.
\<close>

definition create_access_token :: "auth_env \<Rightarrow> int \<Rightarrow> pydict \<Rightarrow> int \<Rightarrow> jwt" where
  "create_access_token env now data expires_delta =
     \<lparr>payload = data,
      expiry = now + expires_delta,
      issued_at = now,
      signature = jwt_sign env (SECRET_KEY env) data (now + expires_delta) now\<rparr>"

section \<open>app/models/user.py\<close>

text \<open>
  \<open>UserRegister(email, password, name)\<close>, \<open>UserLogin(email, password)\<close> and
  \<open>Token(access_token, token_type)\<close>.
\<close>

datatype UserRegister = UserRegister string string "string option"

datatype UserLogin = UserLogin string string

datatype Token = Token jwt string

text \<open>
  Validation of a JSON body against \<open>UserRegister\<close>: \<open>email\<close> must be a string that
  \<open>EmailStr\<close> accepts (\<open>email_str\<close> gives its normal form), \<open>password\<close> a string of at least
  6 characters, \<open>name\<close> a string, null or absent. An element of a \<open>string\<close> stands for one
  character of the Python \<open>str\<close>, which is what \<open>min_length\<close> counts.
\<close>

definition UserRegister_validate ::
  "(string \<Rightarrow> string option) \<Rightarrow> pydict \<Rightarrow> failure + UserRegister" where
  "UserRegister_validate email_str body =
     (let email = (case map_of body ''email'' of Some (PStr e) \<Rightarrow> email_str e | _ \<Rightarrow> None);
          password = (case map_of body ''password'' of
                        Some (PStr p) \<Rightarrow> if 6 \<le> length p then Some p else None
                      | _ \<Rightarrow> None);
          name = (case map_of body ''name'' of
                    None \<Rightarrow> Some None
                  | Some PNone \<Rightarrow> Some None
                  | Some (PStr n) \<Rightarrow> Some (Some n)
                  | _ \<Rightarrow> None)
      in case (email, password, name) of
           (Some e, Some p, Some n) \<Rightarrow> Inr (UserRegister e p n)
         | _ \<Rightarrow> Inl RequestValidationError)"

section \<open>app/routes/auth.py\<close>

text \<open>
  Each handler takes the store and returns it with its result. The values a call draws from
  its environment are arguments: the salt, the generated id, the two clock readings of
  \<open>create_user\<close>, and the time \<open>now\<close> at which the token is issued.
\<close>

fun register ::
  "auth_env \<Rightarrow> string \<Rightarrow> objectid \<Rightarrow> datetime \<Rightarrow> datetime \<Rightarrow> int \<Rightarrow> db \<Rightarrow> UserRegister
     \<Rightarrow> db \<times> (failure + Token)" where
  "register env salt generated utcnow1 utcnow2 now d (UserRegister email password name) =
     (let (d1, existing_user) = get_user_by_email d email
      in if truthy existing_user
         then (d1, Inl (HTTPException 400 ''Email already registered'' []))
         else
           (let hashed_password = get_password_hash env salt password;
                (d2, new_user) = create_user generated utcnow1 utcnow2 d1 email hashed_password name;
                access_token_expires = timedelta_minutes (ACCESS_TOKEN_EXPIRE_MINUTES env)
            in case getitem new_user ''_id'' of
                 Inl e \<Rightarrow> (d2, Inl e)
               | Inr uid \<Rightarrow>
                   (d2, Inr (Token
                     (create_access_token env now
                        [(''sub'', PStr (py_str uid)), (''email'', PStr email)]
                        access_token_expires)
                     ''bearer''))))"

fun login :: "auth_env \<Rightarrow> int \<Rightarrow> db \<Rightarrow> UserLogin \<Rightarrow> db \<times> (failure + Token)" where
  "login env now d (UserLogin email password) =
     (let (d1, user) = get_user_by_email d email
      in case user of
           None \<Rightarrow>
             (d1, Inl (HTTPException 401 ''Incorrect email or password''
                         [(''WWW-Authenticate'', ''Bearer'')]))
         | Some u \<Rightarrow>
             if \<not> truthy user
             then (d1, Inl (HTTPException 401 ''Incorrect email or password''
                              [(''WWW-Authenticate'', ''Bearer'')]))
             else
               (case getitem u ''password'' of
                  Inl e \<Rightarrow> (d1, Inl e)
                | Inr hashed \<Rightarrow>
                    if \<not> verify_password env password hashed
                    then (d1, Inl (HTTPException 401 ''Incorrect email or password''
                                     [(''WWW-Authenticate'', ''Bearer'')]))
                    else
                      (let access_token_expires =
                             timedelta_minutes (ACCESS_TOKEN_EXPIRE_MINUTES env)
                       in case getitem u ''_id'' of
                            Inl e \<Rightarrow> (d1, Inl e)
                          | Inr uid \<Rightarrow>
                              (case getitem u ''email'' of
                                 Inl e \<Rightarrow> (d1, Inl e)
                               | Inr uemail \<Rightarrow>
                                   (d1, Inr (Token
                                     (create_access_token env now
                                        [(''sub'', PStr (py_str uid)), (''email'', uemail)]
                                        access_token_expires)
                                     ''bearer''))))))"

text \<open>
  \<open>current_user\<close> is the dict that the dependency \<open>get_current_user\<close> hands to the handler:
  the claims of the bearer token it has verified.
\<close>

definition get_me :: "objectid \<Rightarrow> db \<Rightarrow> pydict \<Rightarrow> db \<times> (failure + pydict)" where
  "get_me generated d current_user =
     (let user_id = dict_get current_user ''sub'';
          (d1, user) = get_user_by_id generated d user_id
      in case user of
           None \<Rightarrow> (d1, Inl (HTTPException 404 ''User not found'' []))
         | Some u \<Rightarrow>
             if \<not> truthy user then (d1, Inl (HTTPException 404 ''User not found'' []))
             else
               (case getitem u ''_id'' of
                  Inl e \<Rightarrow> (d1, Inl e)
                | Inr uid \<Rightarrow>
                    (case getitem u ''email'' of
                       Inl e \<Rightarrow> (d1, Inl e)
                     | Inr uemail \<Rightarrow>
                         (case getitem u ''createdAt'' of
                            Inl e \<Rightarrow> (d1, Inl e)
                          | Inr created \<Rightarrow>
                              (d1, Inr [(''id'', PStr (py_str uid)),
                                        (''email'', uemail),
                                        (''name'', dict_get u ''name''),
                                        (''createdAt'', created)])))))"

definition verify_token :: "pydict \<Rightarrow> pydict" where
  "verify_token current_user =
     [(''valid'', PBool True),
      (''user_id'', dict_get current_user ''sub''),
      (''email'', dict_get current_user ''email'')]"

text \<open>
  \<open>POST /register\<close>: FastAPI validates the body against \<open>UserRegister\<close> and calls the handler
  only with a valid one.
\<close>

definition post_register ::
  "(string \<Rightarrow> string option) \<Rightarrow> auth_env \<Rightarrow> string \<Rightarrow> objectid \<Rightarrow> datetime \<Rightarrow> datetime \<Rightarrow> int
     \<Rightarrow> db \<Rightarrow> pydict \<Rightarrow> db \<times> (failure + Token)" where
  "post_register email_str env salt generated utcnow1 utcnow2 now d body =
     (case UserRegister_validate email_str body of
        Inl e \<Rightarrow> (d, Inl e)
      | Inr user_data \<Rightarrow> register env salt generated utcnow1 utcnow2 now d user_data)"

section \<open>A concrete environment\<close>

text \<open>
  A small instance on which the handlers can be run: a hasher that keeps the salt in front of
  a separator, a constant signature, a window of 30 minutes, and the stores after one and
  after two registrations.
\<close>

definition example_env :: auth_env where
  "example_env =
     \<lparr>pwd_hash = (\<lambda>salt p. salt @ ''$'' @ p),
      pwd_verify = (\<lambda>p digest. tl (dropWhile (\<lambda>c. c \<noteq> CHR ''$'') digest) = p),
      jwt_sign = (\<lambda>key data e i. key),
      SECRET_KEY = ''key'',
      ACCESS_TOKEN_EXPIRE_MINUTES = 30\<rparr>"

definition empty_db :: db where
  "empty_db = \<lparr>User = [], reads = 0, writes = 0\<rparr>"

definition example_id :: objectid where
  "example_id = ObjectId ''65a1b2c3d4e5f60718293a4b''"

definition other_id :: objectid where
  "other_id = ObjectId ''0123456789abcdef01234567''"

definition example_doc :: pydict where
  "example_doc =
     [(''email'', PStr ''a@x.com''),
      (''password'', PStr ''s$secret1''),
      (''name'', PNone),
      (''provider'', PStr ''email''),
      (''createdAt'', PDatetime ''2024-01-01 10:00:00.000001''),
      (''updatedAt'', PDatetime ''2024-01-01 10:00:00.000002''),
      (''_id'', PObjectId example_id)]"

definition example_db :: db where
  "example_db = \<lparr>User = [example_doc], reads = 1, writes = 1\<rparr>"

definition second_doc :: pydict where
  "second_doc =
     [(''email'', PStr ''b@x.com''),
      (''password'', PStr ''t$hunter22''),
      (''name'', PStr ''Bob''),
      (''provider'', PStr ''email''),
      (''createdAt'', PDatetime ''2024-03-03 09:30:00.000001''),
      (''updatedAt'', PDatetime ''2024-03-03 09:30:00.000002''),
      (''_id'', PObjectId other_id)]"

definition two_users_db :: db where
  "two_users_db = \<lparr>User = [example_doc, second_doc], reads = 2, writes = 2\<rparr>"

section \<open>Properties\<close>

subsection \<open>Lookups\<close>

lemma find_one_None_iff:
  "find_one coll k v = None \<longleftrightarrow> (\<forall>u \<in> set coll. map_of u k \<noteq> Some v)"
  by (auto simp: find_one_def find_None_iff)

lemma find_one_SomeD:
  "find_one coll k v = Some u \<Longrightarrow> u \<in> set coll \<and> map_of u k = Some v"
  by (auto simp: find_one_def find_Some_iff)

lemma find_one_nonempty:
  "find_one coll k v = Some u \<Longrightarrow> u \<noteq> []"
  by (auto dest: find_one_SomeD)


lemma find_one_first:
  "find_one coll k v = Some u \<Longrightarrow>
     \<exists>pre post. coll = pre @ u # post \<and> (\<forall>w \<in> set pre. map_of w k \<noteq> Some v) \<and>
       map_of u k = Some v"
proof (induction coll)
  case Nil
  then show ?case by (simp add: find_one_def)
next
  case (Cons a coll)
  show ?case
  proof (cases "map_of a k = Some v")
    case True
    with Cons.prems have "u = a" by (simp add: find_one_def)
    with True have "a # coll = [] @ u # coll \<and> (\<forall>w \<in> set []. map_of w k \<noteq> Some v) \<and>
        map_of u k = Some v"
      by simp
    then show ?thesis by blast
  next
    case False
    with Cons.prems have "find_one coll k v = Some u" by (simp add: find_one_def)
    from Cons.IH [OF this] obtain pre post where
      "coll = pre @ u # post" "\<forall>w \<in> set pre. map_of w k \<noteq> Some v" "map_of u k = Some v"
      by blast
    with False have "a # coll = (a # pre) @ u # post \<and>
        (\<forall>w \<in> set (a # pre). map_of w k \<noteq> Some v) \<and> map_of u k = Some v"
      by simp
    then show ?thesis by blast
  qed
qed

lemma find_one_unique:
  assumes "u \<in> set coll" and "map_of u k = Some v"
      and "\<forall>w \<in> set coll. map_of w k = Some v \<longrightarrow> w = u"
  shows "find_one coll k v = Some u"
proof (cases "find_one coll k v")
  case None
  with assms(1,2) show ?thesis by (simp add: find_one_None_iff)
next
  case (Some w)
  from find_one_SomeD [OF Some] assms(3) have "w = u" by blast
  with Some show ?thesis by simp
qed

subsection \<open>Object ids\<close>

lemma is_hex_not_space: "is_hex c \<Longrightarrow> \<not> is_space c"
  by (auto simp: is_hex_def is_space_def)

lemma fromhex_hex:
  "list_all is_hex s \<Longrightarrow> even (length s) \<Longrightarrow> fromhex s = Some (map hex_lower s)"
  by (induction s rule: fromhex.induct) (simp_all add: is_hex_not_space)



lemma ObjectId_init_hex:
  "length s = 24 \<Longrightarrow> list_all is_hex s \<Longrightarrow>
     ObjectId_init g (PStr s) = Inr (ObjectId (map hex_lower s))"
  by (simp add: ObjectId_init_def fromhex_hex)


subsection \<open>What the handlers compute\<close>

lemma create_user_eq:
  "create_user g t1 t2 d email hashed name =
     (d\<lparr>User := User d @
            [[(''email'', PStr email),
              (''password'', PStr hashed),
              (''name'', (case name of None \<Rightarrow> PNone | Some n \<Rightarrow> PStr n)),
              (''provider'', PStr ''email''),
              (''createdAt'', PDatetime t1),
              (''updatedAt'', PDatetime t2),
              (''_id'', PObjectId g)]],
         writes := writes d + 1\<rparr>,
      [(''email'', PStr email),
       (''password'', PStr hashed),
       (''name'', (case name of None \<Rightarrow> PNone | Some n \<Rightarrow> PStr n)),
       (''provider'', PStr ''email''),
       (''createdAt'', PDatetime t1),
       (''updatedAt'', PDatetime t2),
       (''_id'', PObjectId g)])"
  by (simp add: create_user_def insert_one_def)

lemma register_fresh:
  assumes "find_one (User d) ''email'' (PStr email) = None"
  shows "register env salt g t1 t2 now d (UserRegister email password name) =
     (d\<lparr>reads := reads d + 1,
         User := User d @
            [[(''email'', PStr email),
              (''password'', PStr (pwd_hash env salt password)),
              (''name'', (case name of None \<Rightarrow> PNone | Some n \<Rightarrow> PStr n)),
              (''provider'', PStr ''email''),
              (''createdAt'', PDatetime t1),
              (''updatedAt'', PDatetime t2),
              (''_id'', PObjectId g)]],
         writes := writes d + 1\<rparr>,
      Inr (Token
        (create_access_token env now
           [(''sub'', PStr (py_str (PObjectId g))), (''email'', PStr email)]
           (timedelta_minutes (ACCESS_TOKEN_EXPIRE_MINUTES env)))
        ''bearer''))"
  using assms
  by (simp add: get_user_by_email_def truthy_def create_user_eq get_password_hash_def getitem_def)

lemma register_taken:
  assumes "find_one (User d) ''email'' (PStr email) = Some u"
  shows "register env salt g t1 t2 now d (UserRegister email password name) =
     (d\<lparr>reads := reads d + 1\<rparr>, Inl (HTTPException 400 ''Email already registered'' []))"
  using assms find_one_nonempty [OF assms]
  by (simp add: get_user_by_email_def truthy_def)

lemma login_unknown:
  assumes "find_one (User d) ''email'' (PStr email) = None"
  shows "login env now d (UserLogin email password) =
     (d\<lparr>reads := reads d + 1\<rparr>,
      Inl (HTTPException 401 ''Incorrect email or password'' [(''WWW-Authenticate'', ''Bearer'')]))"
  using assms by (simp add: get_user_by_email_def)

lemma login_wrong_password:
  assumes "find_one (User d) ''email'' (PStr email) = Some u"
      and "map_of u ''password'' = Some h"
      and "\<not> verify_password env password h"
  shows "login env now d (UserLogin email password) =
     (d\<lparr>reads := reads d + 1\<rparr>,
      Inl (HTTPException 401 ''Incorrect email or password'' [(''WWW-Authenticate'', ''Bearer'')]))"
  using assms find_one_nonempty [OF assms(1)]
  by (simp add: get_user_by_email_def truthy_def getitem_def)

lemma login_accepted:
  assumes "find_one (User d) ''email'' (PStr email) = Some u"
      and "map_of u ''password'' = Some h"
      and "verify_password env password h"
      and "map_of u ''_id'' = Some uid"
  shows "login env now d (UserLogin email password) =
     (d\<lparr>reads := reads d + 1\<rparr>,
      Inr (Token
        (create_access_token env now
           [(''sub'', PStr (py_str uid)), (''email'', PStr email)]
           (timedelta_minutes (ACCESS_TOKEN_EXPIRE_MINUTES env)))
        ''bearer''))"
  using assms find_one_nonempty [OF assms(1)] find_one_SomeD [OF assms(1)]
  by (simp add: get_user_by_email_def truthy_def getitem_def)

lemma login_store:
  "fst (login env now d creds) = d\<lparr>reads := reads d + 1\<rparr>"
  by (cases creds) (simp add: get_user_by_email_def split: option.splits sum.splits)

lemma get_me_store:
  "User (fst (get_me g d cu)) = User d \<and> writes (fst (get_me g d cu)) = writes d"
  by (simp add: get_me_def get_user_by_id_def split: option.splits sum.splits)

declare register.simps [simp del] login.simps [simp del]


lemma map_filter_snoc:
  "List.map_filter f (xs @ [x]) =
     List.map_filter f xs @ (case f x of None \<Rightarrow> [] | Some y \<Rightarrow> [y])"
  by (induction xs) (auto split: option.splits)

lemma register_store:
  "fst (register env salt g t1 t2 now d (UserRegister email password name)) =
     (if find_one (User d) ''email'' (PStr email) = None
      then d\<lparr>reads := reads d + 1,
              User := User d @
                [[(''email'', PStr email),
                  (''password'', PStr (pwd_hash env salt password)),
                  (''name'', (case name of None \<Rightarrow> PNone | Some n \<Rightarrow> PStr n)),
                  (''provider'', PStr ''email''),
                  (''createdAt'', PDatetime t1),
                  (''updatedAt'', PDatetime t2),
                  (''_id'', PObjectId g)]],
              writes := writes d + 1\<rparr>
      else d\<lparr>reads := reads d + 1\<rparr>)"
proof (cases "find_one (User d) ''email'' (PStr email)")
  case None
  then show ?thesis by (simp add: register_fresh)
next
  case (Some u)
  then show ?thesis by (simp add: register_taken)
qed

text \<open>Every document that Register adds has the field \<open>password\<close>.\<close>

lemma register_keeps_password_field:
  assumes "\<forall>u \<in> set (User d). map_of u ''password'' \<noteq> None"
  shows "\<forall>u \<in> set (User (fst (register env salt g t1 t2 now d
           (UserRegister email password name)))). map_of u ''password'' \<noteq> None"
  using assms by (simp add: register_store)

text \<open>Register keeps the stored ids at 12 bytes when the generated id has 12 bytes.\<close>

lemma register_keeps_proper_ids:
  assumes "\<forall>u \<in> set (User d). \<forall>h. map_of u ''_id'' = Some (PObjectId (ObjectId h)) \<longrightarrow> length h = 24"
      and "length hg = 24"
  shows "\<forall>u \<in> set (User (fst (register env salt (ObjectId hg) t1 t2 now d
           (UserRegister email password name)))).
           \<forall>h. map_of u ''_id'' = Some (PObjectId (ObjectId h)) \<longrightarrow> length h = 24"
  using assms by (simp add: register_store)

lemma get_me_found:
  assumes "get_user_by_id g d (dict_get current_user ''sub'') = (d1, Some u)"
      and "map_of u ''_id'' = Some uid"
      and "map_of u ''email'' = Some uemail"
      and "map_of u ''createdAt'' = Some created"
  shows "get_me g d current_user =
           (d1, Inr [(''id'', PStr (py_str uid)),
                     (''email'', uemail),
                     (''name'', dict_get u ''name''),
                     (''createdAt'', created)])"
proof -
  from assms(2) have "u \<noteq> []" by auto
  with assms show ?thesis
    by (simp add: get_me_def truthy_def getitem_def)
qed

lemma get_me_InrD:
  assumes "get_me g d current_user = (d1, Inr response)"
  shows "\<exists>u uid uemail created.
        get_user_by_id g d (dict_get current_user ''sub'') = (d1, Some u) \<and>
        map_of u ''_id'' = Some uid \<and>
        map_of u ''email'' = Some uemail \<and>
        map_of u ''createdAt'' = Some created \<and>
        response = [(''id'', PStr (py_str uid)),
                    (''email'', uemail),
                    (''name'', dict_get u ''name''),
                    (''createdAt'', created)]"
proof -
  obtain d' r where lookup: "get_user_by_id g d (dict_get current_user ''sub'') = (d', r)"
    by (cases "get_user_by_id g d (dict_get current_user ''sub'')")
  show ?thesis
  proof (cases r)
    case None
    with assms lookup show ?thesis by (simp add: get_me_def)
  next
    case (Some u)
    with assms lookup show ?thesis
      by (simp add: get_me_def getitem_def split: if_splits option.splits)
  qed
qed

lemma register_InrD:
  assumes "snd (register env salt g t1 t2 now d (UserRegister email password name)) = Inr t"
  shows "find_one (User d) ''email'' (PStr email) = None"
proof (cases "find_one (User d) ''email'' (PStr email)")
  case None
  then show ?thesis .
next
  case (Some u)
  with assms show ?thesis by (simp add: register_taken)
qed

lemma login_InrD:
  assumes "snd (login env now d (UserLogin email password)) = Inr t"
  shows "\<exists>u digest uid.
           find_one (User d) ''email'' (PStr email) = Some u \<and>
           map_of u ''password'' = Some digest \<and>
           verify_password env password digest \<and>
           map_of u ''_id'' = Some uid \<and>
           map_of u ''email'' = Some (PStr email) \<and>
           t = Token
                 (create_access_token env now
                    [(''sub'', PStr (py_str uid)), (''email'', PStr email)]
                    (timedelta_minutes (ACCESS_TOKEN_EXPIRE_MINUTES env)))
                 ''bearer''"
proof (cases "find_one (User d) ''email'' (PStr email)")
  case None
  with assms show ?thesis by (simp add: login_unknown)
next
  case (Some u)
  note found = find_one_SomeD [OF Some]
  show ?thesis
  proof (cases "map_of u ''password''")
    case None
    with assms Some found show ?thesis
      by (simp add: login.simps get_user_by_email_def getitem_def split: if_splits)
  next
    case digest: (Some digest)
    show ?thesis
    proof (cases "verify_password env password digest")
      case False
      with assms show ?thesis
        by (simp add: login_wrong_password [OF Some digest])
    next
      case True
      show ?thesis
      proof (cases "map_of u ''_id''")
        case None
        with assms Some found digest True show ?thesis
          by (simp add: login.simps get_user_by_email_def getitem_def split: if_splits)
      next
        case uid: (Some uid)
        from assms show ?thesis
          using Some found digest True uid
          by (simp add: login_accepted [OF Some digest True uid])
      qed
    qed
  qed
qed

subsection \<open>Registration followed by login\<close>



subsection \<open>Subjects without a stored user\<close>

text \<open>
  C2, as amended. For claims whose subject denotes no stored user (whenever the subject yields
  an id, no stored document has it), the get-current-user handler looks the user up and fails
  with 404 "User not found", writing nothing. The verify-token handler does not look the user
  up: it returns \<open>valid\<close>, the subject and the email of the claims.
\<close>

theorem unknown_subject:
  assumes "\<And>oid. ObjectId_init g (dict_get current_user ''sub'') = Inr oid \<Longrightarrow>
             find_one (User d) ''_id'' (PObjectId oid) = None"
  shows "snd (get_me g d current_user) = Inl (HTTPException 404 ''User not found'' []) \<and>
         User (fst (get_me g d current_user)) = User d \<and>
         writes (fst (get_me g d current_user)) = writes d \<and>
         verify_token current_user =
           [(''valid'', PBool True),
            (''user_id'', dict_get current_user ''sub''),
            (''email'', dict_get current_user ''email'')]"
proof -
  have "snd (get_me g d current_user) = Inl (HTTPException 404 ''User not found'' [])"
  proof (cases "ObjectId_init g (dict_get current_user ''sub'')")
    case (Inl e)
    then show ?thesis by (simp add: get_me_def get_user_by_id_def)
  next
    case (Inr oid)
    with assms [OF Inr] show ?thesis by (simp add: get_me_def get_user_by_id_def)
  qed
  then show ?thesis
    by (simp add: get_me_store verify_token_def)
qed

theorem unknown_subject_witness:
  "snd (get_me example_id example_db
          [(''sub'', PStr ''0123456789abcdef01234567''), (''email'', PStr ''c@x.com'')]) =
     Inl (HTTPException 404 ''User not found'' []) \<and>
   verify_token [(''sub'', PStr ''0123456789abcdef01234567''), (''email'', PStr ''c@x.com'')] =
     [(''valid'', PBool True),
      (''user_id'', PStr ''0123456789abcdef01234567''),
      (''email'', PStr ''c@x.com'')]"
proof -
  have unknown: "\<And>oid. ObjectId_init example_id
        (dict_get [(''sub'', PStr ''0123456789abcdef01234567''), (''email'', PStr ''c@x.com'')]
           ''sub'') = Inr oid \<Longrightarrow>
      find_one (User example_db) ''_id'' (PObjectId oid) = None"
    by (simp add: dict_get_def ObjectId_init_hex is_hex_def hex_lower_def
        find_one_def example_db_def example_doc_def example_id_def)
  from unknown_subject [where g = example_id and d = example_db
      and current_user = "[(''sub'', PStr ''0123456789abcdef01234567''), (''email'', PStr ''c@x.com'')]",
      OF unknown]
  show ?thesis by (simp add: dict_get_def)
qed

text \<open>
  The claims below name a subject that no stored user has: get current user answers 404, and
  verify token answers that the token is valid.
\<close>

theorem verify_token_unknown_subject_counterexample:
  "ObjectId_init example_id (PStr ''0123456789abcdef01234567'') = Inr other_id \<and>
   find_one (User example_db) ''_id'' (PObjectId other_id) = None \<and>
   get_me example_id example_db
       [(''sub'', PStr ''0123456789abcdef01234567''), (''email'', PStr ''c@x.com'')] =
     (example_db\<lparr>reads := 2\<rparr>, Inl (HTTPException 404 ''User not found'' [])) \<and>
   verify_token [(''sub'', PStr ''0123456789abcdef01234567''), (''email'', PStr ''c@x.com'')] =
     [(''valid'', PBool True),
      (''user_id'', PStr ''0123456789abcdef01234567''),
      (''email'', PStr ''c@x.com'')]"
proof -
  have init: "ObjectId_init example_id (PStr ''0123456789abcdef01234567'') = Inr other_id"
    by (simp add: ObjectId_init_hex is_hex_def hex_lower_def other_id_def)
  have absent: "find_one (User example_db) ''_id'' (PObjectId other_id) = None"
    by (simp add: find_one_def example_db_def example_doc_def example_id_def other_id_def)
  have me: "get_me example_id example_db
       [(''sub'', PStr ''0123456789abcdef01234567''), (''email'', PStr ''c@x.com'')] =
     (example_db\<lparr>reads := 2\<rparr>, Inl (HTTPException 404 ''User not found'' []))"
    by (simp add: get_me_def get_user_by_id_def dict_get_def init absent)
      (simp add: example_db_def)
  show ?thesis
    by (simp add: init absent me verify_token_def dict_get_def)
qed

subsection \<open>Login failures\<close>

text \<open>
  C3. For every store state whose user documents carry the field \<open>password\<close> (as every
  document written by \<open>create_user\<close> does), a login with an email that no user has and a
  login with the email of a user and a wrong password give the same response: the same
  exception, status 401, the same message and the same header; the store is left in the same
  state too.
\<close>

theorem login_failures_indistinguishable:
  assumes "find_one (User d) ''email'' (PStr unknown_email) = None"
      and "find_one (User d) ''email'' (PStr known_email) = Some u"
      and "map_of u ''password'' = Some digest"
      and "\<not> verify_password env wrong_password digest"
  shows "login env now d (UserLogin unknown_email any_password) =
           (d\<lparr>reads := reads d + 1\<rparr>,
            Inl (HTTPException 401 ''Incorrect email or password''
                   [(''WWW-Authenticate'', ''Bearer'')])) \<and>
         login env now d (UserLogin known_email wrong_password) =
           login env now d (UserLogin unknown_email any_password)"
  by (simp add: login_unknown [OF assms(1)] login_wrong_password [OF assms(2,3,4)])

theorem login_failures_indistinguishable_witness:
  "find_one (User example_db) ''email'' (PStr ''b@x.com'') = None \<and>
   find_one (User example_db) ''email'' (PStr ''a@x.com'') = Some example_doc \<and>
   map_of example_doc ''password'' = Some (PStr ''s$secret1'') \<and>
   \<not> verify_password example_env ''wrong'' (PStr ''s$secret1'') \<and>
   snd (login example_env 0 example_db (UserLogin ''b@x.com'' ''secret1'')) =
     Inl (HTTPException 401 ''Incorrect email or password'' [(''WWW-Authenticate'', ''Bearer'')]) \<and>
   snd (login example_env 0 example_db (UserLogin ''a@x.com'' ''wrong'')) =
     Inl (HTTPException 401 ''Incorrect email or password'' [(''WWW-Authenticate'', ''Bearer'')])"
proof -
  have unknown: "find_one (User example_db) ''email'' (PStr ''b@x.com'') = None"
    by (simp add: example_db_def example_doc_def find_one_def)
  have known: "find_one (User example_db) ''email'' (PStr ''a@x.com'') = Some example_doc"
    by (simp add: example_db_def example_doc_def find_one_def)
  have digest: "map_of example_doc ''password'' = Some (PStr ''s$secret1'')"
    by (simp add: example_doc_def)
  have wrong: "\<not> verify_password example_env ''wrong'' (PStr ''s$secret1'')"
    by (simp add: verify_password_def example_env_def)
  from login_failures_indistinguishable [OF unknown known digest wrong, of 0 "''secret1''"]
  show ?thesis
    using unknown known digest wrong by simp
qed

subsection \<open>Email uniqueness\<close>

text \<open>
  C4. Email uniqueness across the user documents is preserved by every handler that takes the
  store (register, login, get current user; verify token has no access to the store), and when a
  user with the given email exists, Register fails with 400 "Email already registered" and
  leaves the collection unchanged: one read is logged and nothing is written.
\<close>

theorem email_uniqueness_preserved:
  "(distinct (List.map_filter (\<lambda>u. map_of u ''email'') (User d)) \<longrightarrow>
      distinct (List.map_filter (\<lambda>u. map_of u ''email'')
        (User (fst (register env salt g t1 t2 now d (UserRegister email password name))))) \<and>
      User (fst (login env now d credentials)) = User d \<and>
      User (fst (get_me g d current_user)) = User d) \<and>
   (u \<in> set (User d) \<and> map_of u ''email'' = Some (PStr email) \<longrightarrow>
      register env salt g t1 t2 now d (UserRegister email password name) =
        (d\<lparr>reads := reads d + 1\<rparr>, Inl (HTTPException 400 ''Email already registered'' [])))"
proof (intro conjI impI)
  assume uniq: "distinct (List.map_filter (\<lambda>u. map_of u ''email'') (User d))"
  show "distinct (List.map_filter (\<lambda>u. map_of u ''email'')
        (User (fst (register env salt g t1 t2 now d (UserRegister email password name)))))"
  proof (cases "find_one (User d) ''email'' (PStr email)")
    case None
    then have "PStr email \<notin> set (List.map_filter (\<lambda>u. map_of u ''email'') (User d))"
      by (auto simp: find_one_None_iff map_filter_def)
    with uniq None show ?thesis
      by (simp add: register_store map_filter_snoc)
  next
    case (Some u)
    with uniq show ?thesis by (simp add: register_store)
  qed
next
  show "User (fst (login env now d credentials)) = User d"
    by (simp add: login_store)
next
  show "User (fst (get_me g d current_user)) = User d"
    by (simp add: get_me_store)
next
  assume taken: "u \<in> set (User d) \<and> map_of u ''email'' = Some (PStr email)"
  then have "find_one (User d) ''email'' (PStr email) \<noteq> None"
    by (auto simp: find_one_None_iff)
  then obtain u' where "find_one (User d) ''email'' (PStr email) = Some u'"
    by blast
  then show "register env salt g t1 t2 now d (UserRegister email password name) =
        (d\<lparr>reads := reads d + 1\<rparr>, Inl (HTTPException 400 ''Email already registered'' []))"
    by (rule register_taken)
qed

theorem email_uniqueness_preserved_witness:
  "distinct (List.map_filter (\<lambda>u. map_of u ''email'') (User example_db)) \<and>
   example_doc \<in> set (User example_db) \<and>
   map_of example_doc ''email'' = Some (PStr ''a@x.com'') \<and>
   distinct (List.map_filter (\<lambda>u. map_of u ''email'')
     (User (fst (register example_env ''t'' other_id ''t1'' ''t2'' 0 example_db
        (UserRegister ''a@x.com'' ''another1'' None))))) \<and>
   register example_env ''t'' other_id ''t1'' ''t2'' 0 example_db
       (UserRegister ''a@x.com'' ''another1'' None) =
     (example_db\<lparr>reads := 2\<rparr>, Inl (HTTPException 400 ''Email already registered'' []))"
proof -
  have uniq: "distinct (List.map_filter (\<lambda>u. map_of u ''email'') (User example_db))"
    by (simp add: example_db_def example_doc_def)
  have stored: "example_doc \<in> set (User example_db) \<and>
      map_of example_doc ''email'' = Some (PStr ''a@x.com'')"
    by (simp add: example_db_def example_doc_def)
  have count: "reads example_db + 1 = 2"
    by (simp add: example_db_def)
  from email_uniqueness_preserved [where d = example_db and env = example_env and salt = "''t''"
      and g = other_id and ?t1.0 = "''t1''" and ?t2.0 = "''t2''" and now = 0
      and email = "''a@x.com''" and password = "''another1''" and name = None
      and u = example_doc]
  show ?thesis
    using uniq stored count by simp
qed

subsection \<open>The public projection\<close>

text \<open>
  C5. Whenever the get-current-user handler succeeds, the subject of the claims yields an id,
  the response is built from the first stored document with that \<open>_id\<close>, and it is exactly the
  public projection of that document: \<open>id\<close>, \<open>email\<close>, \<open>name\<close>, \<open>createdAt\<close>, and no other field,
  so never the stored password digest. Conversely, for every stored user (a document that is
  the only one with its \<open>_id\<close> and has \<open>email\<close> and \<open>createdAt\<close>), a subject that spells the
  24 hexadecimal digits of its id, in either case of the letters, makes the handler succeed with
  the projection of that very user.
\<close>

theorem get_me_public_projection:
  "(get_me g d current_user = (d1, Inr response) \<longrightarrow>
      (\<exists>oid pre u post uemail created.
         ObjectId_init g (dict_get current_user ''sub'') = Inr oid \<and>
         User d = pre @ u # post \<and>
         (\<forall>w \<in> set pre. map_of w ''_id'' \<noteq> Some (PObjectId oid)) \<and>
         map_of u ''_id'' = Some (PObjectId oid) \<and>
         map_of u ''email'' = Some uemail \<and>
         map_of u ''createdAt'' = Some created \<and>
         response = [(''id'', PStr (py_str (PObjectId oid))),
                     (''email'', uemail),
                     (''name'', dict_get u ''name''),
                     (''createdAt'', created)] \<and>
         d1 = d\<lparr>reads := reads d + 1\<rparr>) \<and>
      map fst response = [''id'', ''email'', ''name'', ''createdAt''] \<and>
      map_of response ''password'' = None) \<and>
   (stored \<in> set (User d) \<and>
    map_of stored ''_id'' = Some (PObjectId (ObjectId h)) \<and>
    (\<forall>w \<in> set (User d). map_of w ''_id'' = Some (PObjectId (ObjectId h)) \<longrightarrow> w = stored) \<and>
    map_of stored ''email'' = Some semail \<and>
    map_of stored ''createdAt'' = Some screated \<and>
    length s = 24 \<and> list_all is_hex s \<and> map hex_lower s = h \<and>
    map_of current_user ''sub'' = Some (PStr s) \<longrightarrow>
      get_me g d current_user =
        (d\<lparr>reads := reads d + 1\<rparr>,
         Inr [(''id'', PStr h),
              (''email'', semail),
              (''name'', dict_get stored ''name''),
              (''createdAt'', screated)]))"
proof (intro conjI impI)
  assume ok: "get_me g d current_user = (d1, Inr response)"
  from get_me_InrD [OF ok] obtain u uid uemail created where
    lookup: "get_user_by_id g d (dict_get current_user ''sub'') = (d1, Some u)" and
    fields: "map_of u ''_id'' = Some uid" "map_of u ''email'' = Some uemail"
      "map_of u ''createdAt'' = Some created" and
    response: "response = [(''id'', PStr (py_str uid)), (''email'', uemail),
      (''name'', dict_get u ''name''), (''createdAt'', created)]"
    by blast
  from lookup obtain oid where
    oid: "ObjectId_init g (dict_get current_user ''sub'') = Inr oid" and
    d1: "d1 = d\<lparr>reads := reads d + 1\<rparr>" and
    found: "find_one (User d) ''_id'' (PObjectId oid) = Some u"
    by (auto simp: get_user_by_id_def split: sum.splits)
  from find_one_first [OF found] obtain pre post where
    split: "User d = pre @ u # post" "\<forall>w \<in> set pre. map_of w ''_id'' \<noteq> Some (PObjectId oid)"
      "map_of u ''_id'' = Some (PObjectId oid)"
    by blast
  from split(3) fields(1) have "uid = PObjectId oid" by simp
  with oid split fields response d1
  show "\<exists>oid pre u post uemail created.
         ObjectId_init g (dict_get current_user ''sub'') = Inr oid \<and>
         User d = pre @ u # post \<and>
         (\<forall>w \<in> set pre. map_of w ''_id'' \<noteq> Some (PObjectId oid)) \<and>
         map_of u ''_id'' = Some (PObjectId oid) \<and>
         map_of u ''email'' = Some uemail \<and>
         map_of u ''createdAt'' = Some created \<and>
         response = [(''id'', PStr (py_str (PObjectId oid))),
                     (''email'', uemail),
                     (''name'', dict_get u ''name''),
                     (''createdAt'', created)] \<and>
         d1 = d\<lparr>reads := reads d + 1\<rparr>"
    by blast
  from response show "map fst response = [''id'', ''email'', ''name'', ''createdAt'']"
    by simp
  from response show "map_of response ''password'' = None"
    by simp
next
  assume user: "stored \<in> set (User d) \<and>
    map_of stored ''_id'' = Some (PObjectId (ObjectId h)) \<and>
    (\<forall>w \<in> set (User d). map_of w ''_id'' = Some (PObjectId (ObjectId h)) \<longrightarrow> w = stored) \<and>
    map_of stored ''email'' = Some semail \<and>
    map_of stored ''createdAt'' = Some screated \<and>
    length s = 24 \<and> list_all is_hex s \<and> map hex_lower s = h \<and>
    map_of current_user ''sub'' = Some (PStr s)"
  then have sub: "dict_get current_user ''sub'' = PStr s"
    by (simp add: dict_get_def)
  from user have oid: "ObjectId_init g (PStr s) = Inr (ObjectId h)"
    by (simp add: ObjectId_init_hex)
  from user have found: "find_one (User d) ''_id'' (PObjectId (ObjectId h)) = Some stored"
    by (intro find_one_unique) simp_all
  have lookup: "get_user_by_id g d (dict_get current_user ''sub'') =
      (d\<lparr>reads := reads d + 1\<rparr>, Some stored)"
    by (simp add: get_user_by_id_def sub oid found)
  from user have fields: "map_of stored ''_id'' = Some (PObjectId (ObjectId h))"
    "map_of stored ''email'' = Some semail" "map_of stored ''createdAt'' = Some screated"
    by simp_all
  from get_me_found [OF lookup fields]
  show "get_me g d current_user =
        (d\<lparr>reads := reads d + 1\<rparr>,
         Inr [(''id'', PStr h),
              (''email'', semail),
              (''name'', dict_get stored ''name''),
              (''createdAt'', screated)])"
    by simp
qed

theorem get_me_public_projection_witness:
  "get_me example_id two_users_db
      [(''sub'', PStr ''0123456789ABCDEF01234567''), (''email'', PStr ''b@x.com'')] =
     (two_users_db\<lparr>reads := 3\<rparr>,
      Inr [(''id'', PStr ''0123456789abcdef01234567''),
           (''email'', PStr ''b@x.com''),
           (''name'', PStr ''Bob''),
           (''createdAt'', PDatetime ''2024-03-03 09:30:00.000001'')])"
proof -
  have user: "second_doc \<in> set (User two_users_db) \<and>
    map_of second_doc ''_id'' = Some (PObjectId (ObjectId ''0123456789abcdef01234567'')) \<and>
    (\<forall>w \<in> set (User two_users_db).
        map_of w ''_id'' = Some (PObjectId (ObjectId ''0123456789abcdef01234567'')) \<longrightarrow>
        w = second_doc) \<and>
    map_of second_doc ''email'' = Some (PStr ''b@x.com'') \<and>
    map_of second_doc ''createdAt'' = Some (PDatetime ''2024-03-03 09:30:00.000001'')"
    by (simp add: two_users_db_def second_doc_def example_doc_def other_id_def example_id_def)
  have sub: "length ''0123456789ABCDEF01234567'' = 24 \<and>
    list_all is_hex ''0123456789ABCDEF01234567'' \<and>
    map hex_lower ''0123456789ABCDEF01234567'' = ''0123456789abcdef01234567'' \<and>
    map_of [(''sub'', PStr ''0123456789ABCDEF01234567''), (''email'', PStr ''b@x.com'')] ''sub'' =
      Some (PStr ''0123456789ABCDEF01234567'')"
    by (simp add: is_hex_def hex_lower_def)
  have name: "dict_get second_doc ''name'' = PStr ''Bob''"
    by (simp add: dict_get_def second_doc_def)
  have count: "reads two_users_db + 1 = 3"
    by (simp add: two_users_db_def)
  from get_me_public_projection [where d = two_users_db and stored = second_doc
      and h = "''0123456789abcdef01234567''" and s = "''0123456789ABCDEF01234567''"
      and semail = "PStr ''b@x.com''" and screated = "PDatetime ''2024-03-03 09:30:00.000001''"
      and current_user = "[(''sub'', PStr ''0123456789ABCDEF01234567''), (''email'', PStr ''b@x.com'')]"
      and g = example_id]
  show ?thesis
    using user sub name count by simp
qed

subsection \<open>The stored user document\<close>

text \<open>
  C6, as amended. Every user document created by registration holds the password only as the
  salted digest of the password hasher, in the field \<open>password\<close> (the document has no field
  \<open>passwordHash\<close>), never as the plaintext; its \<open>provider\<close> is "email", and \<open>createdAt\<close> and
  \<open>updatedAt\<close> are the two clock readings taken at creation. The hasher is taken with its
  contract: the digest of a password is not the password, and another salt gives another digest.
\<close>

theorem registered_user_document:
  assumes "find_one (User d) ''email'' (PStr email) = None"
      and "pwd_hash env salt password \<noteq> password"
      and "\<And>salt'. salt' \<noteq> salt \<Longrightarrow> pwd_hash env salt' password \<noteq> pwd_hash env salt password"
  shows "User (fst (register env salt g t1 t2 now d (UserRegister email password name))) =
           User d @
             [[(''email'', PStr email),
               (''password'', PStr (get_password_hash env salt password)),
               (''name'', (case name of None \<Rightarrow> PNone | Some n \<Rightarrow> PStr n)),
               (''provider'', PStr ''email''),
               (''createdAt'', PDatetime t1),
               (''updatedAt'', PDatetime t2),
               (''_id'', PObjectId g)]] \<and>
         map_of (last (User (fst (register env salt g t1 t2 now d
                   (UserRegister email password name))))) ''password'' \<noteq> Some (PStr password) \<and>
         map_of (last (User (fst (register env salt g t1 t2 now d
                   (UserRegister email password name))))) ''passwordHash'' = None \<and>
         (\<forall>salt'. salt' \<noteq> salt \<longrightarrow>
            map_of (last (User (fst (register env salt' g t1 t2 now d
                      (UserRegister email password name))))) ''password'' \<noteq>
            map_of (last (User (fst (register env salt g t1 t2 now d
                      (UserRegister email password name))))) ''password'')"
  using assms(2,3)
  by (simp add: register_fresh [OF assms(1)] get_password_hash_def)

theorem registered_user_document_witness:
  "find_one (User empty_db) ''email'' (PStr ''a@x.com'') = None \<and>
   pwd_hash example_env ''s'' ''secret1'' \<noteq> ''secret1'' \<and>
   User (fst (register example_env ''s'' example_id ''2024-01-01 10:00:00.000001''
          ''2024-01-01 10:00:00.000002'' 0 empty_db (UserRegister ''a@x.com'' ''secret1'' None))) =
     [[(''email'', PStr ''a@x.com''),
       (''password'', PStr ''s$secret1''),
       (''name'', PNone),
       (''provider'', PStr ''email''),
       (''createdAt'', PDatetime ''2024-01-01 10:00:00.000001''),
       (''updatedAt'', PDatetime ''2024-01-01 10:00:00.000002''),
       (''_id'', PObjectId (ObjectId ''65a1b2c3d4e5f60718293a4b''))]] \<and>
   map_of (last (User (fst (register example_env ''s'' example_id ''2024-01-01 10:00:00.000001''
          ''2024-01-01 10:00:00.000002'' 0 empty_db (UserRegister ''a@x.com'' ''secret1'' None)))))
     ''password'' \<noteq> Some (PStr ''secret1'')"
proof -
  have fresh: "find_one (User empty_db) ''email'' (PStr ''a@x.com'') = None"
    by (simp add: empty_db_def find_one_def)
  have digest: "pwd_hash example_env ''s'' ''secret1'' \<noteq> ''secret1''"
    by (simp add: example_env_def)
  have salted: "\<And>salt'. salt' \<noteq> ''s'' \<Longrightarrow>
      pwd_hash example_env salt' ''secret1'' \<noteq> pwd_hash example_env ''s'' ''secret1''"
  proof -
    fix salt' :: string
    assume "salt' \<noteq> ''s''"
    then have "salt' @ ''$secret1'' \<noteq> ''s'' @ ''$secret1''"
      by (simp only: append_same_eq not_False_eq_True)
    then show "pwd_hash example_env salt' ''secret1'' \<noteq> pwd_hash example_env ''s'' ''secret1''"
      by (simp add: example_env_def)
  qed
  from registered_user_document [OF fresh digest salted, of example_id
      "''2024-01-01 10:00:00.000001''" "''2024-01-01 10:00:00.000002''" 0 None]
  show ?thesis
    using fresh digest
    by (simp add: get_password_hash_def example_env_def empty_db_def example_id_def)
qed

text \<open>
  The document that \<open>create_user\<close> builds and stores has the digest under \<open>password\<close> and
  nothing under \<open>passwordHash\<close>.
\<close>

theorem password_field_name_counterexample:
  "map_of (snd (create_user example_id ''2024-01-01 10:00:00.000001''
                  ''2024-01-01 10:00:00.000002'' empty_db ''a@x.com''
                  (get_password_hash example_env ''s'' ''secret1'') None)) ''passwordHash'' = None \<and>
   map_of (snd (create_user example_id ''2024-01-01 10:00:00.000001''
                  ''2024-01-01 10:00:00.000002'' empty_db ''a@x.com''
                  (get_password_hash example_env ''s'' ''secret1'') None)) ''password'' =
     Some (PStr ''s$secret1'') \<and>
   User (fst (create_user example_id ''2024-01-01 10:00:00.000001''
                  ''2024-01-01 10:00:00.000002'' empty_db ''a@x.com''
                  (get_password_hash example_env ''s'' ''secret1'') None)) = [example_doc]"
  by (simp add: create_user_eq get_password_hash_def example_env_def empty_db_def
      example_doc_def)

subsection \<open>The claims of the issued tokens\<close>

text \<open>
  C7. The token issued by Register carries as subject the id newly assigned to the stored user
  and as email the email of the request; the token issued by Login carries as subject the id of
  the existing user and as email the email stored in that user's document; both expire the
  configured window \<open>ACCESS_TOKEN_EXPIRE_MINUTES\<close> after they are issued.
\<close>

theorem issued_token_claims:
  "(snd (register env salt g t1 t2 now d (UserRegister email password name)) = Inr (Token tok ty) \<longrightarrow>
      map_of (last (User (fst (register env salt g t1 t2 now d (UserRegister email password name)))))
        ''_id'' = Some (PObjectId g) \<and>
      payload tok = [(''sub'', PStr (py_str (PObjectId g))), (''email'', PStr email)] \<and>
      issued_at tok = now \<and>
      expiry tok = now + timedelta_minutes (ACCESS_TOKEN_EXPIRE_MINUTES env)) \<and>
   (snd (login env now d (UserLogin email password)) = Inr (Token tok ty) \<longrightarrow>
      (\<exists>u uid uemail.
         find_one (User d) ''email'' (PStr email) = Some u \<and>
         map_of u ''_id'' = Some uid \<and>
         map_of u ''email'' = Some uemail \<and>
         payload tok = [(''sub'', PStr (py_str uid)), (''email'', uemail)]) \<and>
      issued_at tok = now \<and>
      expiry tok = now + timedelta_minutes (ACCESS_TOKEN_EXPIRE_MINUTES env))"
proof (intro conjI impI)
  assume ok: "snd (register env salt g t1 t2 now d (UserRegister email password name)) =
      Inr (Token tok ty)"
  note fresh = register_InrD [OF ok]
  from ok have tok: "tok = create_access_token env now
      [(''sub'', PStr (py_str (PObjectId g))), (''email'', PStr email)]
      (timedelta_minutes (ACCESS_TOKEN_EXPIRE_MINUTES env))"
    by (simp add: register_fresh [OF fresh])
  show "map_of (last (User (fst (register env salt g t1 t2 now d (UserRegister email password name)))))
        ''_id'' = Some (PObjectId g)"
    by (simp add: register_fresh [OF fresh])
  show "payload tok = [(''sub'', PStr (py_str (PObjectId g))), (''email'', PStr email)]"
    by (simp add: tok create_access_token_def)
  show "issued_at tok = now"
    by (simp add: tok create_access_token_def)
  show "expiry tok = now + timedelta_minutes (ACCESS_TOKEN_EXPIRE_MINUTES env)"
    by (simp add: tok create_access_token_def)
next
  assume ok: "snd (login env now d (UserLogin email password)) = Inr (Token tok ty)"
  from login_InrD [OF ok] obtain u digest uid where
    u: "find_one (User d) ''email'' (PStr email) = Some u"
      "map_of u ''_id'' = Some uid" "map_of u ''email'' = Some (PStr email)" and
    tok: "tok = create_access_token env now
      [(''sub'', PStr (py_str uid)), (''email'', PStr email)]
      (timedelta_minutes (ACCESS_TOKEN_EXPIRE_MINUTES env))"
    by auto
  have "payload tok = [(''sub'', PStr (py_str uid)), (''email'', PStr email)]"
    by (simp add: tok create_access_token_def)
  with u show "\<exists>u uid uemail.
         find_one (User d) ''email'' (PStr email) = Some u \<and>
         map_of u ''_id'' = Some uid \<and>
         map_of u ''email'' = Some uemail \<and>
         payload tok = [(''sub'', PStr (py_str uid)), (''email'', uemail)]"
    by blast
  show "issued_at tok = now"
    by (simp add: tok create_access_token_def)
  show "expiry tok = now + timedelta_minutes (ACCESS_TOKEN_EXPIRE_MINUTES env)"
    by (simp add: tok create_access_token_def)
qed

theorem issued_token_claims_witness:
  "snd (register example_env ''s'' example_id ''2024-01-01 10:00:00.000001''
          ''2024-01-01 10:00:00.000002'' 0 empty_db (UserRegister ''a@x.com'' ''secret1'' None)) =
     Inr (Token
       \<lparr>payload = [(''sub'', PStr ''65a1b2c3d4e5f60718293a4b''), (''email'', PStr ''a@x.com'')],
        expiry = 1800, issued_at = 0, signature = ''key''\<rparr>
       ''bearer'') \<and>
   map_of (last (User (fst (register example_env ''s'' example_id ''2024-01-01 10:00:00.000001''
          ''2024-01-01 10:00:00.000002'' 0 empty_db (UserRegister ''a@x.com'' ''secret1'' None)))))
     ''_id'' = Some (PObjectId example_id) \<and>
   snd (login example_env 60 example_db (UserLogin ''a@x.com'' ''secret1'')) =
     Inr (Token
       \<lparr>payload = [(''sub'', PStr ''65a1b2c3d4e5f60718293a4b''), (''email'', PStr ''a@x.com'')],
        expiry = 1860, issued_at = 60, signature = ''key''\<rparr>
       ''bearer'') \<and>
   find_one (User example_db) ''email'' (PStr ''a@x.com'') = Some example_doc"
proof -
  have fresh: "find_one (User empty_db) ''email'' (PStr ''a@x.com'') = None"
    by (simp add: empty_db_def find_one_def)
  have reg: "snd (register example_env ''s'' example_id ''2024-01-01 10:00:00.000001''
          ''2024-01-01 10:00:00.000002'' 0 empty_db (UserRegister ''a@x.com'' ''secret1'' None)) =
     Inr (Token
       \<lparr>payload = [(''sub'', PStr ''65a1b2c3d4e5f60718293a4b''), (''email'', PStr ''a@x.com'')],
        expiry = 1800, issued_at = 0, signature = ''key''\<rparr>
       ''bearer'')"
    unfolding register_fresh [OF fresh]
    by (simp add: create_access_token_def timedelta_minutes_def example_env_def example_id_def)
  have known: "find_one (User example_db) ''email'' (PStr ''a@x.com'') = Some example_doc"
    by (simp add: example_db_def example_doc_def find_one_def)
  have log: "snd (login example_env 60 example_db (UserLogin ''a@x.com'' ''secret1'')) =
     Inr (Token
       \<lparr>payload = [(''sub'', PStr ''65a1b2c3d4e5f60718293a4b''), (''email'', PStr ''a@x.com'')],
        expiry = 1860, issued_at = 60, signature = ''key''\<rparr>
       ''bearer'')"
  proof -
    have digest: "map_of example_doc ''password'' = Some (PStr ''s$secret1'')"
      by (simp add: example_doc_def)
    have ok: "verify_password example_env ''secret1'' (PStr ''s$secret1'')"
      by (simp add: verify_password_def example_env_def)
    have uid: "map_of example_doc ''_id'' = Some (PObjectId example_id)"
      by (simp add: example_doc_def)
    show ?thesis
      unfolding login_accepted [OF known digest ok uid]
      by (simp add: create_access_token_def timedelta_minutes_def example_env_def example_id_def)
  qed
  from issued_token_claims [where env = example_env and salt = "''s''" and g = example_id
      and ?t1.0 = "''2024-01-01 10:00:00.000001''" and ?t2.0 = "''2024-01-01 10:00:00.000002''"
      and now = 0 and d = empty_db and email = "''a@x.com''" and password = "''secret1''"
      and name = None and ty = "''bearer''"
      and tok = "\<lparr>payload = [(''sub'', PStr ''65a1b2c3d4e5f60718293a4b''),
                              (''email'', PStr ''a@x.com'')],
                   expiry = 1800, issued_at = 0, signature = ''key''\<rparr>"]
  show ?thesis
    using reg log known by simp
qed

subsection \<open>Request validation\<close>

text \<open>
  C8. Every Register request whose password is a string shorter than 6 characters is rejected
  with the validation error of a malformed body; the handler is not called, so the store is
  not accessed (neither read nor written) and no user is created.
\<close>

theorem post_register_short_password:
  assumes "map_of body ''password'' = Some (PStr p)" and "length p < 6"
  shows "post_register email_str env salt g t1 t2 now d body = (d, Inl RequestValidationError)"
  using assms
  by (simp add: post_register_def UserRegister_validate_def split: option.splits)

theorem post_register_short_password_witness:
  "post_register Some example_env ''s'' other_id ''t1'' ''t2'' 0 example_db
     [(''email'', PStr ''b@x.com''), (''password'', PStr ''abc'')]
   = (example_db, Inl RequestValidationError)"
  using post_register_short_password
    [of "[(''email'', PStr ''b@x.com''), (''password'', PStr ''abc'')]" "''abc''"
        Some example_env "''s''" other_id "''t1''" "''t2''" 0 example_db]
  by simp

subsection \<open>Store accesses\<close>

text \<open>
  C9, as amended. Register performs exactly one store read, and one store write exactly when
  it succeeds (none when it fails); Login performs exactly one read and no write; the
  get-current-user handler writes nothing and reads once, or not at all when the subject is no
  id; verify token has no access to the store. No handler changes or removes an existing user
  document: Register leaves the existing documents in place and appends at most one.
\<close>

theorem store_accesses:
  "reads (fst (register env salt g t1 t2 now d (UserRegister email password name))) = reads d + 1 \<and>
   writes (fst (register env salt g t1 t2 now d (UserRegister email password name))) =
     (if isl (snd (register env salt g t1 t2 now d (UserRegister email password name)))
      then writes d else writes d + 1) \<and>
   take (length (User d))
        (User (fst (register env salt g t1 t2 now d (UserRegister email password name)))) = User d \<and>
   length (User (fst (register env salt g t1 t2 now d (UserRegister email password name)))) =
     (if isl (snd (register env salt g t1 t2 now d (UserRegister email password name)))
      then length (User d) else length (User d) + 1) \<and>
   fst (login env now d credentials) = d\<lparr>reads := reads d + 1\<rparr> \<and>
   fst (get_me g d current_user) =
     (if isl (ObjectId_init g (dict_get current_user ''sub'')) then d
      else d\<lparr>reads := reads d + 1\<rparr>)"
proof -
  have reg: "reads (fst (register env salt g t1 t2 now d (UserRegister email password name))) =
      reads d + 1 \<and>
    writes (fst (register env salt g t1 t2 now d (UserRegister email password name))) =
      (if isl (snd (register env salt g t1 t2 now d (UserRegister email password name)))
       then writes d else writes d + 1) \<and>
    take (length (User d))
        (User (fst (register env salt g t1 t2 now d (UserRegister email password name)))) = User d \<and>
    length (User (fst (register env salt g t1 t2 now d (UserRegister email password name)))) =
      (if isl (snd (register env salt g t1 t2 now d (UserRegister email password name)))
       then length (User d) else length (User d) + 1)"
  proof (cases "find_one (User d) ''email'' (PStr email)")
    case None
    then show ?thesis by (simp add: register_fresh)
  next
    case (Some u)
    then show ?thesis by (simp add: register_taken)
  qed
  have me: "fst (get_me g d current_user) =
     (if isl (ObjectId_init g (dict_get current_user ''sub'')) then d
      else d\<lparr>reads := reads d + 1\<rparr>)"
    by (simp add: get_me_def get_user_by_id_def split: sum.splits option.splits)
  from reg me show ?thesis
    by (simp add: login_store)
qed

theorem store_accesses_witness:
  "fst (register example_env ''s'' example_id ''2024-01-01 10:00:00.000001''
          ''2024-01-01 10:00:00.000002'' 0 empty_db (UserRegister ''a@x.com'' ''secret1'' None)) =
     example_db \<and>
   fst (login example_env 60 example_db (UserLogin ''a@x.com'' ''secret1'')) =
     example_db\<lparr>reads := 2\<rparr> \<and>
   fst (get_me other_id example_db [(''sub'', PStr ''65a1b2c3d4e5f60718293a4b'')]) =
     example_db\<lparr>reads := 2\<rparr>"
proof -
  have fresh: "find_one (User empty_db) ''email'' (PStr ''a@x.com'') = None"
    by (simp add: empty_db_def find_one_def)
  have reg: "fst (register example_env ''s'' example_id ''2024-01-01 10:00:00.000001''
          ''2024-01-01 10:00:00.000002'' 0 empty_db (UserRegister ''a@x.com'' ''secret1'' None))
     = example_db"
    unfolding register_fresh [OF fresh]
    by (simp add: example_db_def example_doc_def empty_db_def example_env_def)
  have sub: "\<not> isl (ObjectId_init other_id
      (dict_get [(''sub'', PStr ''65a1b2c3d4e5f60718293a4b'')] ''sub''))"
    by (simp add: dict_get_def ObjectId_init_hex is_hex_def)
  have count: "reads example_db + 1 = 2"
    by (simp add: example_db_def)
  from store_accesses [where d = example_db and env = example_env and now = 60
      and credentials = "UserLogin ''a@x.com'' ''secret1''" and g = other_id
      and current_user = "[(''sub'', PStr ''65a1b2c3d4e5f60718293a4b'')]"]
  show ?thesis
    using reg sub count by simp
qed

text \<open>
  A registration with an email that is taken reads once and writes nothing.
\<close>

theorem register_duplicate_writes_counterexample:
  "register example_env ''t'' other_id ''2024-02-02 10:00:00.000001''
       ''2024-02-02 10:00:00.000002'' 0 example_db (UserRegister ''a@x.com'' ''another1'' None) =
     (\<lparr>User = [example_doc], reads = 2, writes = 1\<rparr>,
      Inl (HTTPException 400 ''Email already registered'' [])) \<and>
   writes example_db = 1"
proof -
  have known: "find_one (User example_db) ''email'' (PStr ''a@x.com'') = Some example_doc"
    by (simp add: example_db_def example_doc_def find_one_def)
  show ?thesis
    unfolding register_taken [OF known]
    by (simp add: example_db_def)
qed

subsection \<open>Malformed subjects\<close>



end
